theory Spec2Isabelle
  imports Main
begin

section \<open>Values, dictionaries and exceptions\<close>

text \<open>
  A voice record is a Python \<^verbatim>\<open>Dict[str, Any]\<close> decoded from JSON. The values are
  \<^verbatim>\<open>None\<close>, booleans, unbounded integers, strings, lists and nested dictionaries
  (the catalog's \<^verbatim>\<open>VoiceTag\<close> is one). JSON floats are left out. A dictionary is an
  association list in insertion order; a lookup reads the first binding of a key, and a
  Python dictionary has each key once.
\<close>

datatype pyval =
    PNone
  | PBool bool
  | PInt int
  | PStr string
  | PList "pyval list"
  | PDict "(string \<times> pyval) list"

type_synonym voice = "(string \<times> pyval) list"

text \<open>
  The exceptions of \<^verbatim>\<open>list_voices.py\<close>: the two it raises itself
  (\<^verbatim>\<open>RuntimeError\<close>, \<^verbatim>\<open>ValueError\<close>), the two it catches
  (\<^verbatim>\<open>aiohttp.ClientError\<close>, \<^verbatim>\<open>json.JSONDecodeError\<close>), those of the subscript,
  method call and index in \<^verbatim>\<open>voice["Locale"].split("-")[0]\<close>, the
  \<^verbatim>\<open>TypeError\<close> of a call whose keywords cannot be bound to the parameters, and any
  exception of another class, kept under its class name.
\<close>

datatype py_exc =
    RuntimeError string
  | ValueError string
  | ClientError string
  | JSONDecodeError string
  | KeyError string
  | AttributeError string
  | IndexError
  | TypeError string
  | OtherException string

definition int_of_bool :: "bool \<Rightarrow> int" where
  "int_of_bool b = (if b then 1 else 0)"

text \<open>
  Python's \<^verbatim>\<open>==\<close> on these values: \<^verbatim>\<open>bool\<close> is a subclass of \<^verbatim>\<open>int\<close>, so
  \<^verbatim>\<open>True == 1\<close>; lists compare element by element; two dictionaries are equal when
  they have the same number of keys and every key of the left one is bound in the right
  one to an equal value; values of different kinds are unequal.
\<close>

fun py_eq :: "pyval \<Rightarrow> pyval \<Rightarrow> bool" where
  "py_eq PNone PNone = True"
| "py_eq (PBool a) (PBool b) = (a = b)"
| "py_eq (PBool a) (PInt b) = (int_of_bool a = b)"
| "py_eq (PInt a) (PBool b) = (a = int_of_bool b)"
| "py_eq (PInt a) (PInt b) = (a = b)"
| "py_eq (PStr a) (PStr b) = (a = b)"
| "py_eq (PList a) (PList b) = list_all2 py_eq a b"
| "py_eq (PDict a) (PDict b) =
     (length a = length b \<and>
      list_all (\<lambda>(k, v). case map_of b k of None \<Rightarrow> False | Some w \<Rightarrow> py_eq v w) a)"
| "py_eq _ _ = False"

text \<open>\<^verbatim>\<open>d.get(key)\<close>: the value bound to the key, \<^verbatim>\<open>None\<close> when there is none.\<close>

definition dict_get :: "voice \<Rightarrow> string \<Rightarrow> pyval" where
  "dict_get d key = (case map_of d key of None \<Rightarrow> PNone | Some v \<Rightarrow> v)"

text \<open>\<^verbatim>\<open>d[key]\<close>: raises \<^verbatim>\<open>KeyError\<close> when the key is missing.\<close>

definition dict_getitem :: "voice \<Rightarrow> string \<Rightarrow> py_exc + pyval" where
  "dict_getitem d key = (case map_of d key of None \<Rightarrow> Inl (KeyError key) | Some v \<Rightarrow> Inr v)"

text \<open>
  \<^verbatim>\<open>{**d, key: v}\<close>: a key of \<^verbatim>\<open>d\<close> keeps its place and takes the new value, a new
  key goes to the end.
\<close>

fun dict_set :: "voice \<Rightarrow> string \<Rightarrow> pyval \<Rightarrow> voice" where
  "dict_set [] key v = [(key, v)]"
| "dict_set ((k, w) # d) key v =
     (if k = key then (key, v) # d else (k, w) # dict_set d key v)"

text \<open>
  \<^verbatim>\<open>s.split(sep)\<close> for a separator of one character: the pieces of \<^verbatim>\<open>s\<close> between
  the separators, the empty piece included; \<^verbatim>\<open>"".split("-") == [""]\<close>. A string is
  the list of its bytes in UTF-8; the byte of \<^verbatim>\<open>-\<close> occurs in no longer sequence, so
  the bytes split where the code points do.
\<close>

fun str_split :: "char \<Rightarrow> string \<Rightarrow> string list" where
  "str_split sep [] = [[]]"
| "str_split sep (c # cs) =
     (if c = sep then [] # str_split sep cs
      else (case str_split sep cs of
              [] \<Rightarrow> [[c]]
            | piece # pieces \<Rightarrow> (c # piece) # pieces))"

text \<open>\<^verbatim>\<open>x.split(sep)\<close> on any value: only a string has the method.\<close>

fun py_split :: "pyval \<Rightarrow> char \<Rightarrow> py_exc + string list" where
  "py_split (PStr s) sep = Inr (str_split sep s)"
| "py_split _ sep = Inl (AttributeError ''split'')"

text \<open>\<^verbatim>\<open>xs[0]\<close>: raises \<^verbatim>\<open>IndexError\<close> on the empty list.\<close>

fun list_first :: "string list \<Rightarrow> py_exc + string" where
  "list_first [] = Inl IndexError"
| "list_first (x # xs) = Inr x"

section \<open>The Voice Fetcher: \<^verbatim>\<open>list_voices\<close>\<close>

text \<open>
  The remote catalog is the environment. \<open>reply\<close> is what the body of the
  \<^verbatim>\<open>try\<close> block does for a given proxy when it runs: the request,
  \<^verbatim>\<open>raise_for_status()\<close> and \<^verbatim>\<open>response.json()\<close> either raise an exception or
  yield the decoded data, typed as the function's annotation types it. \<open>requests\<close>
  counts the requests issued so far.
\<close>

record network =
  reply :: "string option \<Rightarrow> py_exc + voice list"
  requests :: nat

text \<open>
  \<^verbatim>\<open>except aiohttp.ClientError as e: raise RuntimeError(f"Failed to fetch voice list: {e}")\<close>
  and \<^verbatim>\<open>except json.JSONDecodeError: raise ValueError(...)\<close>; an exception of any
  other class is not caught and leaves the function as it is.
\<close>

fun handle_fetch :: "py_exc + voice list \<Rightarrow> py_exc + voice list" where
  "handle_fetch (Inr data) = Inr data"
| "handle_fetch (Inl (ClientError e)) = Inl (RuntimeError (''Failed to fetch voice list: '' @ e))"
| "handle_fetch (Inl (JSONDecodeError e)) =
     Inl (ValueError ''Failed to decode the voice list response as JSON.'')"
| "handle_fetch (Inl other) = Inl other"

definition list_voices :: "string option \<Rightarrow> network \<Rightarrow> (py_exc + voice list) \<times> network" where
  "list_voices proxy net =
     (handle_fetch (reply net proxy), net\<lparr>requests := requests net + 1\<rparr>)"

section \<open>The Voice Directory: \<^verbatim>\<open>VoicesManager\<close>\<close>

record manager =
  voices :: "voice list"
  is_initialized :: bool

text \<open>\<^verbatim>\<open>__init__\<close>: \<^verbatim>\<open>self.voices = voices or []\<close>, \<^verbatim>\<open>self.is_initialized = False\<close>.\<close>

definition VoicesManager_init :: "voice list option \<Rightarrow> manager" where
  "VoicesManager_init vs =
     \<lparr>voices = (case vs of None \<Rightarrow> [] | Some xs \<Rightarrow> if xs = [] then [] else xs),
      is_initialized = False\<rparr>"

text \<open>The value \<^verbatim>\<open>voice["Locale"].split("-")[0]\<close>.\<close>

definition locale_language :: "voice \<Rightarrow> py_exc + string" where
  "locale_language voice =
     (case dict_getitem voice ''Locale'' of
        Inl e \<Rightarrow> Inl e
      | Inr loc \<Rightarrow>
          (case py_split loc CHR ''-'' of
             Inl e \<Rightarrow> Inl e
           | Inr pieces \<Rightarrow> list_first pieces))"

text \<open>The dictionary \<^verbatim>\<open>{**voice, "Language": voice["Locale"].split("-")[0]}\<close>.\<close>

definition with_language :: "voice \<Rightarrow> py_exc + voice" where
  "with_language voice =
     (case locale_language voice of
        Inl e \<Rightarrow> Inl e
      | Inr lang \<Rightarrow> Inr (dict_set voice ''Language'' (PStr lang)))"

text \<open>
  The list comprehension over \<^verbatim>\<open>manager.voices\<close>: the records in order, stopping at
  the first one that raises.
\<close>

fun with_language_all :: "voice list \<Rightarrow> py_exc + voice list" where
  "with_language_all [] = Inr []"
| "with_language_all (voice # rest) =
     (case with_language voice of
        Inl e \<Rightarrow> Inl e
      | Inr voice' \<Rightarrow>
          (case with_language_all rest of
             Inl e \<Rightarrow> Inl e
           | Inr rest' \<Rightarrow> Inr (voice' # rest')))"

text \<open>
  \<^verbatim>\<open>create\<close> yields the exception or the manager it returns, the successive states of
  the manager object it builds (after \<^verbatim>\<open>cls(voices)\<close>, after the assignment of the
  comprehension, after the assignment of the flag), and the network afterwards.
\<close>

record created =
  outcome :: "py_exc + manager"
  states :: "manager list"
  net_after :: network

definition VoicesManager_create :: "voice list option \<Rightarrow> network \<Rightarrow> created" where
  "VoicesManager_create custom_voices net =
     (case (case custom_voices of
              None \<Rightarrow> list_voices None net
            | Some vs \<Rightarrow> (Inr vs, net)) of
        (Inl e, net') \<Rightarrow> \<lparr>outcome = Inl e, states = [], net_after = net'\<rparr>
      | (Inr vs, net') \<Rightarrow>
          (let m0 = VoicesManager_init (Some vs) in
           case with_language_all (voices m0) of
             Inl e \<Rightarrow> \<lparr>outcome = Inl e, states = [m0], net_after = net'\<rparr>
           | Inr vs' \<Rightarrow>
               (let m1 = m0\<lparr>voices := vs'\<rparr>;
                    m2 = m1\<lparr>is_initialized := True\<rparr>
                in \<lparr>outcome = Inr m2, states = [m0, m1, m2], net_after = net'\<rparr>)))"

text \<open>
  \<^verbatim>\<open>all(voice.get(key) == value for key, value in attributes.items())\<close>, the keyword
  arguments being the list of their items.
\<close>

definition matches :: "voice \<Rightarrow> (string \<times> pyval) list \<Rightarrow> bool" where
  "matches voice attributes =
     list_all (\<lambda>(key, value). py_eq (dict_get voice key) value) attributes"

text \<open>
  \<^verbatim>\<open>find\<close> is a method of the manager: it yields its result and the manager after the
  call. It assigns to no attribute of \<^verbatim>\<open>self\<close>. Its signature is
  \<^verbatim>\<open>find(self, **attributes)\<close>: a keyword named \<^verbatim>\<open>self\<close> is not collected into
  \<^verbatim>\<open>attributes\<close> but collides with the first parameter, and the call raises
  \<^verbatim>\<open>TypeError\<close> (multiple values for the argument) before the body runs.
\<close>

definition VoicesManager_find ::
  "manager \<Rightarrow> (string \<times> pyval) list \<Rightarrow> (py_exc + voice list) \<times> manager" where
  "VoicesManager_find self attributes =
     (if ''self'' \<in> set (map fst attributes) then
        (Inl (TypeError ''find() got multiple values for argument self''), self)
      else if \<not> is_initialized self then
        (Inl (RuntimeError ''VoicesManager.find() called before VoicesManager.create()''), self)
      else if attributes = [] then (Inr (voices self), self)
      else (Inr (filter (\<lambda>voice. matches voice attributes) (voices self)), self))"

section \<open>The query as the specification words it\<close>

text \<open>
  A record matches when every queried attribute name is present on the record and its
  value is the queried value, by exact equality. The records found are the matching ones,
  in the order of the catalog.
\<close>

definition present_and_equal :: "voice \<Rightarrow> (string \<times> pyval) list \<Rightarrow> bool" where
  "present_and_equal voice attributes =
     list_all (\<lambda>(key, value). map_of voice key = Some value) attributes"

definition spec_find :: "manager \<Rightarrow> (string \<times> pyval) list \<Rightarrow> voice list" where
  "spec_find self attributes = filter (\<lambda>voice. present_and_equal voice attributes) (voices self)"

fun is_str :: "pyval \<Rightarrow> bool" where
  "is_str (PStr s) = True"
| "is_str _ = False"

text \<open>
  The invariant of a populated directory: a record is normalized when its
  \<^verbatim>\<open>Language\<close> attribute is the value derived from its \<^verbatim>\<open>Locale\<close>.
\<close>

definition normalized :: "voice \<Rightarrow> bool" where
  "normalized voice =
     (case locale_language voice of
        Inl e \<Rightarrow> False
      | Inr lang \<Rightarrow> map_of voice ''Language'' = Some (PStr lang))"

section \<open>The example catalog\<close>

definition voice_A :: voice where
  "voice_A = [(''ShortName'', PStr ''A''), (''Locale'', PStr ''en-US''), (''Gender'', PStr ''Female'')]"

definition voice_B :: voice where
  "voice_B = [(''ShortName'', PStr ''B''), (''Locale'', PStr ''en-GB''), (''Gender'', PStr ''Male'')]"

definition offline :: network where
  "offline = \<lparr>reply = (\<lambda>proxy. Inl (ClientError ''Cannot connect to host'')), requests = 0\<rparr>"

definition populated_A :: voice where
  "populated_A = [(''ShortName'', PStr ''A''), (''Locale'', PStr ''en-US''),
                  (''Gender'', PStr ''Female''), (''Language'', PStr ''en'')]"

definition populated_B :: voice where
  "populated_B = [(''ShortName'', PStr ''B''), (''Locale'', PStr ''en-GB''),
                  (''Gender'', PStr ''Male''), (''Language'', PStr ''en'')]"

definition directory_AB :: manager where
  "directory_AB = \<lparr>voices = [populated_A, populated_B], is_initialized = True\<rparr>"

text \<open>A seed record that already carries a \<^verbatim>\<open>Language\<close>, and one with no \<^verbatim>\<open>Locale\<close>.\<close>

definition voice_C :: voice where
  "voice_C = [(''ShortName'', PStr ''C''), (''Language'', PStr ''xx''), (''Locale'', PStr ''fr'')]"

definition populated_C :: voice where
  "populated_C = [(''ShortName'', PStr ''C''), (''Language'', PStr ''fr''), (''Locale'', PStr ''fr'')]"


text \<open>A seed record whose \<^verbatim>\<open>Locale\<close> is not a string.\<close>

definition voice_I :: voice where
  "voice_I = [(''ShortName'', PStr ''I''), (''Locale'', PInt 5)]"

text \<open>A network on which the request runs into its timeout, and one that serves the catalog.\<close>

definition timed_out :: network where
  "timed_out = \<lparr>reply = (\<lambda>proxy. Inl (OtherException ''TimeoutError'')), requests = 0\<rparr>"

definition garbled :: network where
  "garbled = \<lparr>reply = (\<lambda>proxy. Inl (JSONDecodeError ''Expecting value'')), requests = 0\<rparr>"

definition online :: network where
  "online = \<lparr>reply = (\<lambda>proxy. Inr [voice_A, voice_B]), requests = 0\<rparr>"

section \<open>Facts about the operations\<close>

lemma py_eq_None_left: "py_eq PNone v = (v = PNone)"
  by (cases v) simp_all

lemma py_eq_Str_right: "py_eq w (PStr s) = (w = PStr s)"
  by (cases w) auto

lemma map_of_dict_set: "map_of (dict_set d key v) k = (if k = key then Some v else map_of d k)"
  by (induction d key v rule: dict_set.induct) auto

lemma keys_of_dict_set: "set (map fst (dict_set d key v)) = insert key (set (map fst d))"
  by (induction d key v rule: dict_set.induct) auto

lemma distinct_dict_set: "distinct (map fst d) \<Longrightarrow> distinct (map fst (dict_set d key v))"
proof (induction d key v rule: dict_set.induct)
  case (1 key v)
  then show ?case by simp
next
  case (2 k w d key v)
  then show ?case
    using keys_of_dict_set [of d key v] by auto
qed

lemma str_split_not_Nil: "str_split sep s \<noteq> []"
  by (induction s) (auto split: list.splits)

lemma list_first_str_split: "list_first (str_split sep s) = Inr (takeWhile (\<lambda>c. c \<noteq> sep) s)"
  by (induction s) (auto split: list.splits)

lemma init_not_initialized: "\<not> is_initialized (VoicesManager_init vs)"
  by (simp add: VoicesManager_init_def)

lemma init_voices_Some: "voices (VoicesManager_init (Some vs)) = vs"
  by (simp add: VoicesManager_init_def)

lemma with_language_A: "with_language voice_A = Inr populated_A"
  by (simp add: with_language_def locale_language_def dict_getitem_def voice_A_def populated_A_def)

lemma with_language_B: "with_language voice_B = Inr populated_B"
  by (simp add: with_language_def locale_language_def dict_getitem_def voice_B_def populated_B_def)

lemma create_AB: "outcome (VoicesManager_create (Some [voice_A, voice_B]) offline) = Inr directory_AB"
  by (simp add: VoicesManager_create_def init_voices_Some with_language_A with_language_B
      directory_AB_def Let_def)

lemma matches_iff:
  "matches voice attributes =
     (\<forall>(key, value) \<in> set attributes.
        (case map_of voice key of Some w \<Rightarrow> py_eq w value | None \<Rightarrow> value = PNone))"
  by (auto simp add: matches_def list_all_iff dict_get_def py_eq_None_left split: option.splits)

lemma is_str_iff: "is_str v = (\<exists>s. v = PStr s)"
  by (cases v) simp_all

lemma matches_strings:
  assumes "\<forall>(key, value) \<in> set attributes. is_str value"
  shows "matches voice attributes = present_and_equal voice attributes"
proof -
  have "py_eq (dict_get voice k) v = (map_of voice k = Some v)"
    if "(k, v) \<in> set attributes" for k v
  proof -
    from assms that obtain s where "v = PStr s"
      by (auto simp add: is_str_iff)
    then show ?thesis
      by (simp add: dict_get_def py_eq_Str_right split: option.splits)
  qed
  then show ?thesis
    by (auto simp add: matches_def present_and_equal_def list_all_iff)
qed

lemma spec_find_AB_Female: "spec_find directory_AB [(''Gender'', PStr ''Female'')] = [populated_A]"
  by (simp add: spec_find_def present_and_equal_def directory_AB_def populated_A_def populated_B_def)

lemma spec_find_AB_Male_US:
  "spec_find directory_AB [(''Locale'', PStr ''en-US''), (''Gender'', PStr ''Male'')] = []"
  by (simp add: spec_find_def present_and_equal_def directory_AB_def populated_A_def populated_B_def)

lemma py_eq_bool_int: "py_eq (PBool True) (PInt 1) \<and> PBool True \<noteq> PInt 1"
  by (simp add: int_of_bool_def)

lemma locale_language_str:
  "map_of voice ''Locale'' = Some (PStr s) \<Longrightarrow>
   locale_language voice = Inr (takeWhile (\<lambda>c. c \<noteq> CHR ''-'') s)"
  by (simp add: locale_language_def dict_getitem_def list_first_str_split)

lemma locale_language_missing:
  "map_of voice ''Locale'' = None \<Longrightarrow> locale_language voice = Inl (KeyError ''Locale'')"
  by (simp add: locale_language_def dict_getitem_def)

lemma locale_language_not_str:
  "map_of voice ''Locale'' = Some v \<Longrightarrow> \<not> is_str v \<Longrightarrow>
   locale_language voice = Inl (AttributeError ''split'')"
  by (cases v) (simp_all add: locale_language_def dict_getitem_def)

lemma locale_language_cases:
  "(\<exists>s. map_of voice ''Locale'' = Some (PStr s) \<and>
        locale_language voice = Inr (takeWhile (\<lambda>c. c \<noteq> CHR ''-'') s)) \<or>
   (map_of voice ''Locale'' = None \<and> locale_language voice = Inl (KeyError ''Locale'')) \<or>
   (\<exists>v. map_of voice ''Locale'' = Some v \<and> \<not> is_str v \<and>
        locale_language voice = Inl (AttributeError ''split''))"
proof (cases "map_of voice ''Locale''")
  case None
  then show ?thesis by (simp add: locale_language_missing)
next
  case (Some v)
  then show ?thesis
    by (cases "is_str v") (auto simp add: is_str_iff locale_language_str locale_language_not_str)
qed

lemma with_language_Inr_iff:
  "(with_language voice = Inr voice') =
   (\<exists>s. map_of voice ''Locale'' = Some (PStr s) \<and>
        voice' = dict_set voice ''Language'' (PStr (takeWhile (\<lambda>c. c \<noteq> CHR ''-'') s)))"
  using locale_language_cases [of voice]
  by (auto simp add: with_language_def)


lemma with_language_all_Inr:
  "with_language_all vs = Inr vs' \<Longrightarrow>
   length vs' = length vs \<and> (\<forall>i<length vs. with_language (vs ! i) = Inr (vs' ! i))"
proof (induction vs arbitrary: vs')
  case Nil
  then show ?case by simp
next
  case (Cons voice rest)
  from Cons.prems obtain voice' rest' where
    v: "with_language voice = Inr voice'" and r: "with_language_all rest = Inr rest'"
    and vs': "vs' = voice' # rest'"
    by (auto split: sum.splits)
  from Cons.IH [OF r] have len: "length rest' = length rest"
    and nth: "\<forall>i<length rest. with_language (rest ! i) = Inr (rest' ! i)"
    by simp_all
  show ?case
    using v vs' len nth by (auto simp add: nth_Cons split: nat.splits)
qed



lemma outcome_create:
  assumes "custom_voices = Some vs \<or> (custom_voices = None \<and> reply net None = Inr vs)"
  shows "outcome (VoicesManager_create custom_voices net) =
           (case with_language_all vs of
              Inl e \<Rightarrow> Inl e
            | Inr vs' \<Rightarrow> Inr \<lparr>voices = vs', is_initialized = True\<rparr>)"
  using assms
  by (auto simp add: VoicesManager_create_def list_voices_def init_voices_Some Let_def
      VoicesManager_init_def split: sum.splits)

lemma states_create:
  assumes "custom_voices = Some vs \<or> (custom_voices = None \<and> reply net None = Inr vs)"
  shows "states (VoicesManager_create custom_voices net) =
           (case with_language_all vs of
              Inl e \<Rightarrow> [\<lparr>voices = vs, is_initialized = False\<rparr>]
            | Inr vs' \<Rightarrow> [\<lparr>voices = vs, is_initialized = False\<rparr>,
                          \<lparr>voices = vs', is_initialized = False\<rparr>,
                          \<lparr>voices = vs', is_initialized = True\<rparr>])"
  using assms
  by (auto simp add: VoicesManager_create_def list_voices_def init_voices_Some Let_def
      VoicesManager_init_def split: sum.splits)

lemma create_fetch_failed:
  assumes "fst (list_voices None net) = Inl e"
  shows "outcome (VoicesManager_create None net) = Inl e \<and>
         states (VoicesManager_create None net) = []"
  using assms
  by (cases "list_voices None net") (simp add: VoicesManager_create_def)

lemma fetch_cases:
  "(\<exists>vs. reply net None = Inr vs) \<or> (\<exists>e. fst (list_voices None net) = Inl e)"
proof (cases "reply net None")
  case (Inl x)
  then show ?thesis by (cases x) (simp_all add: list_voices_def)
next
  case (Inr vs)
  then show ?thesis by simp
qed



lemma keys_dict_set:
  "filter (\<lambda>k. k \<noteq> key) (map fst (dict_set d key v)) = filter (\<lambda>k. k \<noteq> key) (map fst d)"
  by (induction d key v rule: dict_set.induct) auto

lemma normalized_with_language:
  assumes "with_language voice = Inr voice'"
  shows "normalized voice'"
proof -
  from assms obtain s where loc: "map_of voice ''Locale'' = Some (PStr s)"
    and v': "voice' = dict_set voice ''Language'' (PStr (takeWhile (\<lambda>c. c \<noteq> CHR ''-'') s))"
    by (auto simp add: with_language_Inr_iff)
  have "map_of voice' ''Locale'' = Some (PStr s)"
    using loc v' by (simp add: map_of_dict_set)
  then have "locale_language voice' = Inr (takeWhile (\<lambda>c. c \<noteq> CHR ''-'') s)"
    by (rule locale_language_str)
  then show ?thesis
    using v' by (simp add: normalized_def map_of_dict_set)
qed

lemma normalized_with_language_all:
  assumes "with_language_all vs = Inr vs'"
  shows "list_all normalized vs'"
proof -
  from with_language_all_Inr [OF assms]
  have len: "length vs' = length vs"
    and nth: "\<forall>i<length vs. with_language (vs ! i) = Inr (vs' ! i)"
    by simp_all
  have "normalized (vs' ! i)" if "i < length vs'" for i
    using that len nth normalized_with_language by auto
  then show ?thesis
    by (simp add: list_all_length)
qed


lemma find_self_keyword:
  "''self'' \<in> set (map fst attributes) \<Longrightarrow>
   VoicesManager_find self attributes =
     (Inl (TypeError ''find() got multiple values for argument self''), self)"
  by (simp add: VoicesManager_find_def)

lemma with_language_I: "with_language voice_I = Inl (AttributeError ''split'')"
  by (simp add: with_language_def locale_language_def dict_getitem_def voice_I_def)

lemma with_language_C: "with_language voice_C = Inr populated_C"
  by (simp add: with_language_def locale_language_def dict_getitem_def voice_C_def populated_C_def)


lemma create_AC:
  "outcome (VoicesManager_create (Some [voice_A, voice_C]) offline) =
     Inr \<lparr>voices = [populated_A, populated_C], is_initialized = True\<rparr>"
  by (simp add: outcome_create [of _ "[voice_A, voice_C]"] with_language_A with_language_C)

section \<open>The query operation\<close>

text \<open>
  C4, as the code has it. A manager whose flag is not set, as every manager is between
  its construction and the end of \<^verbatim>\<open>create\<close>, answers \<^verbatim>\<open>find\<close> with the
  \<^verbatim>\<open>RuntimeError\<close> of the source for every keyword mapping, empty or not, that has
  no keyword named \<^verbatim>\<open>self\<close>. With a keyword named \<^verbatim>\<open>self\<close> the call raises
  \<^verbatim>\<open>TypeError\<close> before the flag is tested. In neither case does it return a list.
\<close>

theorem find_before_create_fails:
  assumes "\<not> is_initialized self"
  shows "(''self'' \<notin> set (map fst attributes) \<longrightarrow>
            VoicesManager_find self attributes =
              (Inl (RuntimeError ''VoicesManager.find() called before VoicesManager.create()''), self)) \<and>
         (''self'' \<in> set (map fst attributes) \<longrightarrow>
            VoicesManager_find self attributes =
              (Inl (TypeError ''find() got multiple values for argument self''), self)) \<and>
         (\<forall>found. fst (VoicesManager_find self attributes) \<noteq> Inr found)"
  using assms by (simp add: VoicesManager_find_def)

theorem find_before_create_fails_witness:
  "\<not> is_initialized (VoicesManager_init (Some [voice_A])) \<and>
   ''self'' \<notin> set (map fst [(''Gender'', PStr ''Female'')]) \<and>
   fst (VoicesManager_find (VoicesManager_init (Some [voice_A])) []) =
     Inl (RuntimeError ''VoicesManager.find() called before VoicesManager.create()'') \<and>
   fst (VoicesManager_find (VoicesManager_init (Some [voice_A])) [(''Gender'', PStr ''Female'')]) =
     Inl (RuntimeError ''VoicesManager.find() called before VoicesManager.create()'') \<and>
   fst (VoicesManager_find (VoicesManager_init None) []) \<noteq> Inr []"
proof -
  have h: "\<not> is_initialized (VoicesManager_init vs)" for vs
    by (rule init_not_initialized)
  have k: "''self'' \<notin> set (map fst [(''Gender'', PStr ''Female'')])"
    by simp
  show ?thesis
    using h k find_before_create_fails [OF h [of "Some [voice_A]"], of "[]"]
      find_before_create_fails [OF h [of "Some [voice_A]"], of "[(''Gender'', PStr ''Female'')]"]
      find_before_create_fails [OF h [of None], of "[]"]
    by simp
qed

text \<open>
  C4 as the specification states it fails for a keyword named \<^verbatim>\<open>self\<close>: on a
  manager that was constructed and not populated, \<^verbatim>\<open>find(self="x")\<close> raises
  \<^verbatim>\<open>TypeError\<close>, not the \<^verbatim>\<open>RuntimeError\<close> of the unpopulated directory.
\<close>

theorem find_before_create_self_keyword_counterexample:
  "\<not> is_initialized (VoicesManager_init (Some [voice_A])) \<and>
   fst (VoicesManager_find (VoicesManager_init (Some [voice_A])) [(''self'', PStr ''x'')]) =
     Inl (TypeError ''find() got multiple values for argument self'')"
  by (simp add: VoicesManager_find_def VoicesManager_init_def)

text \<open>
  C5. On a populated manager, \<^verbatim>\<open>find()\<close> with no keyword returns \<^verbatim>\<open>self.voices\<close>:
  every record, in the order of the catalog.
\<close>

theorem find_no_attributes_returns_all:
  "is_initialized self \<Longrightarrow> VoicesManager_find self [] = (Inr (voices self), self)"
  by (simp add: VoicesManager_find_def)

theorem find_no_attributes_returns_all_witness:
  "is_initialized directory_AB \<and>
   fst (VoicesManager_find directory_AB []) = Inr [populated_A, populated_B]"
proof -
  have h: "is_initialized directory_AB"
    by (simp add: directory_AB_def)
  show ?thesis
    using h find_no_attributes_returns_all [OF h]
    by (simp add: directory_AB_def)
qed

text \<open>
  C9. \<^verbatim>\<open>find\<close> leaves the manager as it was, so a second call with the same keywords
  on the manager after the first call has the same outcome as the first. On a populated
  manager the outcome is a list whenever the keywords can be passed at all (none is named
  \<^verbatim>\<open>self\<close>): the two calls return the same records in the same order.
\<close>

theorem find_repeatable:
  "is_initialized self \<Longrightarrow>
   VoicesManager_find self attributes = (r, self') \<Longrightarrow>
   self' = self \<and> VoicesManager_find self' attributes = (r, self') \<and>
   (''self'' \<notin> set (map fst attributes) \<longrightarrow> (\<exists>found. r = Inr found))"
  by (auto simp add: VoicesManager_find_def split: if_splits)

theorem find_repeatable_witness:
  "is_initialized directory_AB \<and> ''self'' \<notin> set (map fst [(''Gender'', PStr ''Female'')]) \<and>
   VoicesManager_find directory_AB [(''Gender'', PStr ''Female'')] = (Inr [populated_A], directory_AB) \<and>
   VoicesManager_find (snd (VoicesManager_find directory_AB [(''Gender'', PStr ''Female'')]))
     [(''Gender'', PStr ''Female'')] = (Inr [populated_A], directory_AB)"
proof -
  have h: "is_initialized directory_AB"
    by (simp add: directory_AB_def)
  have f: "VoicesManager_find directory_AB [(''Gender'', PStr ''Female'')] = (Inr [populated_A], directory_AB)"
    by (simp add: VoicesManager_find_def directory_AB_def matches_def dict_get_def
        populated_A_def populated_B_def)
  show ?thesis
    using h f find_repeatable [OF h f]
    by simp
qed

text \<open>
  C1, as the code has it. On a populated manager and a non-empty keyword mapping with no
  keyword named \<^verbatim>\<open>self\<close> (which the call cannot pass: it raises \<^verbatim>\<open>TypeError\<close>),
  \<^verbatim>\<open>find\<close> returns, in the order of the catalog, exactly the records on which every
  queried name either is present with a value equal to the queried one under Python's
  \<^verbatim>\<open>==\<close>, or is absent while the queried value is \<^verbatim>\<open>None\<close>
  (\<^verbatim>\<open>voice.get(key)\<close> is \<^verbatim>\<open>None\<close> for a missing key). When every queried value is
  a string, these are exactly the records on which every queried name is present with
  exactly that string: no case folding and no coercion.
\<close>

theorem find_returns_matching_records:
  assumes "is_initialized self" and "attributes \<noteq> []"
    and "''self'' \<notin> set (map fst attributes)"
  shows "VoicesManager_find self attributes =
           (Inr (filter (\<lambda>voice. \<forall>(key, value) \<in> set attributes.
                    (case map_of voice key of
                       Some w \<Rightarrow> py_eq w value
                     | None \<Rightarrow> value = PNone)) (voices self)), self) \<and>
         ((\<forall>(key, value) \<in> set attributes. is_str value) \<longrightarrow>
            VoicesManager_find self attributes = (Inr (spec_find self attributes), self))"
proof -
  have f: "VoicesManager_find self attributes =
             (Inr (filter (\<lambda>voice. matches voice attributes) (voices self)), self)"
    using assms by (simp add: VoicesManager_find_def)
  have general: "filter (\<lambda>voice. matches voice attributes) (voices self) =
      filter (\<lambda>voice. \<forall>(key, value) \<in> set attributes.
                    (case map_of voice key of
                       Some w \<Rightarrow> py_eq w value
                     | None \<Rightarrow> value = PNone)) (voices self)"
    by (simp only: matches_iff)
  have strings: "filter (\<lambda>voice. matches voice attributes) (voices self) = spec_find self attributes"
    if "\<forall>(key, value) \<in> set attributes. is_str value"
    using matches_strings [OF that] by (simp add: spec_find_def)
  show ?thesis
    using f general strings by simp
qed

theorem find_returns_matching_records_witness:
  "is_initialized directory_AB \<and>
   ''self'' \<notin> set (map fst [(''Locale'', PStr ''en-US''), (''Gender'', PStr ''Male'')]) \<and>
   fst (VoicesManager_find directory_AB [(''Gender'', PStr ''Female'')]) = Inr [populated_A] \<and>
   fst (VoicesManager_find directory_AB [(''Locale'', PStr ''en-US''), (''Gender'', PStr ''Male'')]) = Inr []"
proof -
  have h: "is_initialized directory_AB"
    by (simp add: directory_AB_def)
  have "VoicesManager_find directory_AB [(''Gender'', PStr ''Female'')] =
          (Inr (spec_find directory_AB [(''Gender'', PStr ''Female'')]), directory_AB)"
    using find_returns_matching_records [OF h, of "[(''Gender'', PStr ''Female'')]", THEN conjunct2]
    by simp
  moreover have "VoicesManager_find directory_AB [(''Locale'', PStr ''en-US''), (''Gender'', PStr ''Male'')] =
          (Inr (spec_find directory_AB [(''Locale'', PStr ''en-US''), (''Gender'', PStr ''Male'')]), directory_AB)"
    using find_returns_matching_records
      [OF h, of "[(''Locale'', PStr ''en-US''), (''Gender'', PStr ''Male'')]", THEN conjunct2]
    by simp
  ultimately show ?thesis
    using h by (simp add: spec_find_AB_Female spec_find_AB_Male_US)
qed

text \<open>
  C1 as the specification states it fails for a queried value \<^verbatim>\<open>None\<close>:
  \<^verbatim>\<open>find(Gender="Female", Status=None)\<close> returns record A, which has no
  \<^verbatim>\<open>Status\<close> attribute, where presence and equality of every queried attribute
  select no record.
\<close>

theorem find_none_query_counterexample:
  "is_initialized directory_AB \<and>
   fst (VoicesManager_find directory_AB [(''Gender'', PStr ''Female''), (''Status'', PNone)]) = Inr [populated_A] \<and>
   spec_find directory_AB [(''Gender'', PStr ''Female''), (''Status'', PNone)] = []"
  by (simp add: VoicesManager_find_def matches_def dict_get_def spec_find_def present_and_equal_def
      directory_AB_def populated_A_def populated_B_def)

text \<open>
  C2, as the code has it. On a populated manager and a keyword mapping with no keyword
  named \<^verbatim>\<open>self\<close>, a record that lacks a queried key is left out of the result whenever the value queried for that key is not \<^verbatim>\<open>None\<close>.
  For the queried value \<^verbatim>\<open>None\<close> the missing key compares equal, so a query of
  that key alone returns the record.
\<close>

theorem find_excludes_missing_attribute:
  assumes "is_initialized self" and "(key, value) \<in> set attributes" and "map_of voice key = None"
    and "''self'' \<notin> set (map fst attributes)"
  shows "(value \<noteq> PNone \<longrightarrow>
            (\<exists>found. fst (VoicesManager_find self attributes) = Inr found \<and> voice \<notin> set found)) \<and>
         (voice \<in> set (voices self) \<longrightarrow>
            (\<exists>found. fst (VoicesManager_find self [(key, PNone)]) = Inr found \<and> voice \<in> set found))"
proof -
  have ne: "attributes \<noteq> []"
    using assms(2) by auto
  have "\<not> matches voice attributes" if "value \<noteq> PNone"
    using that assms(2,3) by (auto simp add: matches_iff intro!: bexI [of _ "(key, value)"])
  moreover have "matches voice [(key, PNone)]"
    using assms(3) by (simp add: matches_iff)
  moreover have "key \<noteq> ''self''"
    using assms(2,4) by force
  ultimately show ?thesis
    using assms(1,4) ne by (simp add: VoicesManager_find_def)
qed

theorem find_excludes_missing_attribute_witness:
  "is_initialized directory_AB \<and> map_of populated_A ''Status'' = None \<and>
   ''self'' \<notin> set (map fst [(''Status'', PStr ''GA'')]) \<and>
   PStr ''GA'' \<noteq> PNone \<and> populated_A \<in> set (voices directory_AB) \<and>
   fst (VoicesManager_find directory_AB [(''Status'', PStr ''GA'')]) = Inr [] \<and>
   (\<exists>found. fst (VoicesManager_find directory_AB [(''Status'', PNone)]) = Inr found \<and>
      populated_A \<in> set found)"
proof -
  have h: "is_initialized directory_AB"
    by (simp add: directory_AB_def)
  have k: "(''Status'', PStr ''GA'') \<in> set [(''Status'', PStr ''GA'')]"
    by simp
  have a: "map_of populated_A ''Status'' = None"
    by (simp add: populated_A_def)
  have f: "fst (VoicesManager_find directory_AB [(''Status'', PStr ''GA'')]) = Inr []"
    by (simp add: VoicesManager_find_def matches_def dict_get_def directory_AB_def
        populated_A_def populated_B_def)
  have v: "populated_A \<in> set (voices directory_AB)"
    by (simp add: directory_AB_def)
  have n: "''self'' \<notin> set (map fst [(''Status'', PStr ''GA'')])"
    by simp
  from find_excludes_missing_attribute [OF h k a n] v
  have "\<exists>found. fst (VoicesManager_find directory_AB [(''Status'', PNone)]) = Inr found \<and>
      populated_A \<in> set found"
    by blast
  then show ?thesis
    using h a f v by simp
qed

text \<open>
  C2 as the specification states it fails at \<^verbatim>\<open>find(Status=None)\<close>: record B has no
  \<^verbatim>\<open>Status\<close> attribute and is returned.
\<close>

theorem find_missing_attribute_none_counterexample:
  "is_initialized directory_AB \<and> populated_B \<in> set (voices directory_AB) \<and>
   map_of populated_B ''Status'' = None \<and>
   fst (VoicesManager_find directory_AB [(''Status'', PNone)]) = Inr [populated_A, populated_B]"
  by (simp add: VoicesManager_find_def matches_def dict_get_def directory_AB_def
      populated_A_def populated_B_def)

section \<open>Population\<close>

text \<open>
  C6. With a seed, empty or not, \<^verbatim>\<open>create\<close> does not call \<^verbatim>\<open>list_voices\<close>: the
  network is as it was, and the count of requests with it.
\<close>

theorem create_seeded_no_fetch:
  "net_after (VoicesManager_create (Some vs) net) = net \<and>
   requests (net_after (VoicesManager_create (Some vs) net)) = requests net"
  by (simp add: VoicesManager_create_def Let_def split: sum.splits)

theorem create_seeded_no_fetch_witness:
  "requests (net_after (VoicesManager_create (Some []) offline)) = 0 \<and>
   requests (net_after (VoicesManager_create (Some [voice_A, voice_B]) offline)) = 0 \<and>
   requests (net_after (VoicesManager_create None offline)) = 1"
proof -
  have "requests offline = 0"
    by (simp add: offline_def)
  moreover have "requests (net_after (VoicesManager_create None offline)) = 1"
    by (simp add: VoicesManager_create_def list_voices_def offline_def)
  ultimately show ?thesis
    using create_seeded_no_fetch [of "[]" offline]
      create_seeded_no_fetch [of "[voice_A, voice_B]" offline]
    by simp
qed




text \<open>
  C8. The manager object that \<^verbatim>\<open>create\<close> builds has its flag set in no state but one
  in which every record is normalized; the manager returned is the last of these states.
  When \<^verbatim>\<open>create\<close> raises, no state has the flag set. When \<^verbatim>\<open>list_voices\<close>
  raises, \<^verbatim>\<open>create\<close> raises the same exception and no manager object was built.
\<close>

theorem population_all_or_nothing:
  "(\<forall>s\<in>set (states (VoicesManager_create custom_voices net)).
       is_initialized s \<longrightarrow> list_all normalized (voices s)) \<and>
   (\<forall>m. outcome (VoicesManager_create custom_voices net) = Inr m \<longrightarrow>
       is_initialized m \<and> list_all normalized (voices m) \<and>
       states (VoicesManager_create custom_voices net) \<noteq> [] \<and>
       last (states (VoicesManager_create custom_voices net)) = m) \<and>
   (\<forall>e. outcome (VoicesManager_create custom_voices net) = Inl e \<longrightarrow>
       (\<forall>s\<in>set (states (VoicesManager_create custom_voices net)). \<not> is_initialized s)) \<and>
   (\<forall>e. custom_voices = None \<and> fst (list_voices None net) = Inl e \<longrightarrow>
       outcome (VoicesManager_create custom_voices net) = Inl e \<and>
       states (VoicesManager_create custom_voices net) = [])"
proof -
  let ?c = "VoicesManager_create custom_voices net"
  have failed: "outcome ?c = Inl e \<and> states ?c = []"
    if "custom_voices = None" and "fst (list_voices None net) = Inl e" for e
    using that create_fetch_failed by simp
  have supplied: "(\<forall>s\<in>set (states ?c). is_initialized s \<longrightarrow> list_all normalized (voices s)) \<and>
      (\<forall>m. outcome ?c = Inr m \<longrightarrow>
         is_initialized m \<and> list_all normalized (voices m) \<and> states ?c \<noteq> [] \<and> last (states ?c) = m) \<and>
      (\<forall>e. outcome ?c = Inl e \<longrightarrow> (\<forall>s\<in>set (states ?c). \<not> is_initialized s))"
    if src: "custom_voices = Some vs \<or> (custom_voices = None \<and> reply net None = Inr vs)" for vs
  proof (cases "with_language_all vs")
    case (Inl e)
    then show ?thesis
      by (simp add: outcome_create [OF src] states_create [OF src])
  next
    case (Inr vs')
    then show ?thesis
      using normalized_with_language_all [OF Inr]
      by (simp add: outcome_create [OF src] states_create [OF src])
  qed
  show ?thesis
  proof (cases custom_voices)
    case (Some vs)
    then show ?thesis
      using supplied [of vs] by simp
  next
    case None
    from fetch_cases [of net] show ?thesis
    proof
      assume "\<exists>vs. reply net None = Inr vs"
      then obtain vs where vs: "reply net None = Inr vs" ..
      then have "\<And>e. fst (list_voices None net) \<noteq> Inl e"
        by (simp add: list_voices_def)
      then show ?thesis
        using supplied [of vs] None vs by simp
    next
      assume "\<exists>e. fst (list_voices None net) = Inl e"
      then obtain e where e: "fst (list_voices None net) = Inl e" ..
      from failed [OF None e] show ?thesis
        using e None by simp
    qed
  qed
qed

theorem population_all_or_nothing_witness:
  "fst (list_voices None offline) = Inl (RuntimeError ''Failed to fetch voice list: Cannot connect to host'') \<and>
   outcome (VoicesManager_create None offline) =
     Inl (RuntimeError ''Failed to fetch voice list: Cannot connect to host'') \<and>
   states (VoicesManager_create None offline) = [] \<and>
   fst (list_voices None garbled) = Inl (ValueError ''Failed to decode the voice list response as JSON.'') \<and>
   outcome (VoicesManager_create None garbled) =
     Inl (ValueError ''Failed to decode the voice list response as JSON.'') \<and>
   outcome (VoicesManager_create None online) = Inr directory_AB \<and>
   is_initialized directory_AB \<and> list_all normalized (voices directory_AB)"
proof -
  have off: "fst (list_voices None offline) =
      Inl (RuntimeError ''Failed to fetch voice list: Cannot connect to host'')"
    by (simp add: list_voices_def offline_def)
  have gar: "fst (list_voices None garbled) =
      Inl (ValueError ''Failed to decode the voice list response as JSON.'')"
    by (simp add: list_voices_def garbled_def)
  have on: "outcome (VoicesManager_create None online) = Inr directory_AB"
    by (simp add: outcome_create [of _ "[voice_A, voice_B]"] online_def with_language_A
        with_language_B directory_AB_def)
  show ?thesis
    using off gar on
      population_all_or_nothing [of None offline]
      population_all_or_nothing [of None garbled]
      population_all_or_nothing [of None online]
    by simp
qed

text \<open>
  C10. When population succeeds, the manager has as many records as the list it was given
  and in the same order; each record keeps every attribute other than \<^verbatim>\<open>Language\<close>,
  with its value and in its place among the keys; and its \<^verbatim>\<open>Language\<close> is the value
  derived from its \<^verbatim>\<open>Locale\<close>, whatever \<^verbatim>\<open>Language\<close> the record carried before.
\<close>

theorem population_preserves_other_attributes:
  assumes "custom_voices = Some vs \<or> (custom_voices = None \<and> reply net None = Inr vs)"
    and "outcome (VoicesManager_create custom_voices net) = Inr m"
  shows "length (voices m) = length vs \<and>
         (\<forall>i<length vs.
            (\<forall>key. key \<noteq> ''Language'' \<longrightarrow> map_of (voices m ! i) key = map_of (vs ! i) key) \<and>
            filter (\<lambda>key. key \<noteq> ''Language'') (map fst (voices m ! i)) =
              filter (\<lambda>key. key \<noteq> ''Language'') (map fst (vs ! i)) \<and>
            (\<exists>s. map_of (vs ! i) ''Locale'' = Some (PStr s) \<and>
                 map_of (voices m ! i) ''Language'' =
                   Some (PStr (takeWhile (\<lambda>c. c \<noteq> CHR ''-'') s))))"
proof -
  from assms(2) outcome_create [OF assms(1)]
  obtain vs' where all: "with_language_all vs = Inr vs'" and vm: "voices m = vs'"
    by (auto split: sum.splits)
  from with_language_all_Inr [OF all]
  have len: "length vs' = length vs"
    and nth: "\<forall>i<length vs. with_language (vs ! i) = Inr (vs' ! i)"
    by simp_all
  have "(\<forall>key. key \<noteq> ''Language'' \<longrightarrow> map_of (vs' ! i) key = map_of (vs ! i) key) \<and>
        filter (\<lambda>key. key \<noteq> ''Language'') (map fst (vs' ! i)) =
          filter (\<lambda>key. key \<noteq> ''Language'') (map fst (vs ! i)) \<and>
        (\<exists>s. map_of (vs ! i) ''Locale'' = Some (PStr s) \<and>
             map_of (vs' ! i) ''Language'' = Some (PStr (takeWhile (\<lambda>c. c \<noteq> CHR ''-'') s)))"
    if "i < length vs" for i
  proof -
    from nth that have "with_language (vs ! i) = Inr (vs' ! i)"
      by simp
    then obtain s where loc: "map_of (vs ! i) ''Locale'' = Some (PStr s)"
      and new: "vs' ! i = dict_set (vs ! i) ''Language'' (PStr (takeWhile (\<lambda>c. c \<noteq> CHR ''-'') s))"
      by (auto simp add: with_language_Inr_iff)
    show ?thesis
      using loc by (simp add: new map_of_dict_set keys_dict_set)
  qed
  then show ?thesis
    using len vm by simp
qed

theorem population_preserves_other_attributes_witness:
  "outcome (VoicesManager_create (Some [voice_A, voice_C]) offline) =
     Inr \<lparr>voices = [populated_A, populated_C], is_initialized = True\<rparr> \<and>
   map_of voice_C ''Language'' = Some (PStr ''xx'') \<and>
   map_of populated_C ''Language'' = Some (PStr ''fr'') \<and>
   map_of populated_C ''ShortName'' = map_of voice_C ''ShortName'' \<and>
   map_of populated_A ''Gender'' = map_of voice_A ''Gender'' \<and>
   map fst populated_C = map fst voice_C"
proof -
  let ?m = "\<lparr>voices = [populated_A, populated_C], is_initialized = True\<rparr>"
  have src: "Some [voice_A, voice_C] = Some [voice_A, voice_C] \<or>
      (Some [voice_A, voice_C] = None \<and> reply offline None = Inr [voice_A, voice_C])"
    by simp
  note t = population_preserves_other_attributes [OF src create_AC]
  from t have "map_of (voices ?m ! 1) ''ShortName'' = map_of ([voice_A, voice_C] ! 1) ''ShortName''"
    by (simp add: All_less_Suc)
  moreover from t have "map_of (voices ?m ! 0) ''Gender'' = map_of ([voice_A, voice_C] ! 0) ''Gender''"
    by (simp add: All_less_Suc)
  moreover have "map_of voice_C ''Language'' = Some (PStr ''xx'')"
    and "map_of populated_C ''Language'' = Some (PStr ''fr'')"
    and "map fst populated_C = map fst voice_C"
    by (simp_all add: voice_C_def populated_C_def)
  ultimately show ?thesis
    using create_AC by simp
qed

section \<open>The fetch\<close>

text \<open>
  C7, as the code has it. \<^verbatim>\<open>list_voices\<close> raises \<^verbatim>\<open>RuntimeError\<close> when the request
  raises an \<^verbatim>\<open>aiohttp.ClientError\<close>, and \<^verbatim>\<open>ValueError\<close>, a different exception,
  when decoding raises \<^verbatim>\<open>json.JSONDecodeError\<close>. An exception of any other class
  leaves \<^verbatim>\<open>list_voices\<close> as it was raised. On success the decoded data is returned
  unchanged.
\<close>

theorem list_voices_outcomes:
  "(\<forall>e. reply net proxy = Inl (ClientError e) \<longrightarrow>
       fst (list_voices proxy net) = Inl (RuntimeError (''Failed to fetch voice list: '' @ e))) \<and>
   (\<forall>e. reply net proxy = Inl (JSONDecodeError e) \<longrightarrow>
       fst (list_voices proxy net) =
         Inl (ValueError ''Failed to decode the voice list response as JSON.'')) \<and>
   (\<forall>a b. RuntimeError a \<noteq> ValueError b) \<and>
   (\<forall>x. reply net proxy = Inl x \<and> (\<forall>e. x \<noteq> ClientError e) \<and> (\<forall>e. x \<noteq> JSONDecodeError e) \<longrightarrow>
       fst (list_voices proxy net) = Inl x) \<and>
   (\<forall>data. reply net proxy = Inr data \<longrightarrow> fst (list_voices proxy net) = Inr data)"
proof -
  have other: "handle_fetch (Inl x) = Inl x"
    if "\<forall>e. x \<noteq> ClientError e" and "\<forall>e. x \<noteq> JSONDecodeError e" for x
    using that by (cases x) simp_all
  show ?thesis
    using other by (simp add: list_voices_def)
qed

theorem list_voices_outcomes_witness:
  "fst (list_voices None offline) =
     Inl (RuntimeError ''Failed to fetch voice list: Cannot connect to host'') \<and>
   fst (list_voices None garbled) =
     Inl (ValueError ''Failed to decode the voice list response as JSON.'') \<and>
   fst (list_voices None online) = Inr [voice_A, voice_B] \<and>
   fst (list_voices (Some ''http://127.0.0.1:8080'') online) = Inr [voice_A, voice_B]"
proof -
  have "reply offline None = Inl (ClientError ''Cannot connect to host'')"
    and "reply garbled None = Inl (JSONDecodeError ''Expecting value'')"
    and "reply online None = Inr [voice_A, voice_B]"
    and "reply online (Some ''http://127.0.0.1:8080'') = Inr [voice_A, voice_B]"
    by (simp_all add: offline_def garbled_def online_def)
  then show ?thesis
    using list_voices_outcomes [of offline None] list_voices_outcomes [of garbled None]
      list_voices_outcomes [of online None]
      list_voices_outcomes [of online "Some ''http://127.0.0.1:8080''"]
    by simp
qed

text \<open>
  C7 as the specification states it fails when the request ends in an exception that is
  neither an \<^verbatim>\<open>aiohttp.ClientError\<close> nor a \<^verbatim>\<open>json.JSONDecodeError\<close>, as the
  \<^verbatim>\<open>TimeoutError\<close> of an elapsed timeout: it is raised as it is, and is neither of
  the two exceptions of \<^verbatim>\<open>list_voices\<close>.
\<close>

theorem list_voices_timeout_counterexample:
  "fst (list_voices None timed_out) = Inl (OtherException ''TimeoutError'') \<and>
   outcome (VoicesManager_create None timed_out) = Inl (OtherException ''TimeoutError'')"
  by (simp add: list_voices_def timed_out_def VoicesManager_create_def)

end
